theory Spec2Isabelle
  imports
    Complex_Main
    "HOL-Library.Stream"
    "HOL-Library.Char_ord"
    "HOL-Library.List_Lexorder"
begin

section \<open>Numbers and truthiness\<close>

text \<open>
  A JavaScript \<open>number\<close> is modelled as a real: arithmetic is exact, IEEE rounding and
  the non-finite values (\<open>NaN\<close>, \<open>Infinity\<close>) are outside the model. Where the
  code divides by an entry price or a balance, a divisor of zero yields a non-finite
  number in JavaScript; a theorem that states the value of such a quotient assumes that
  the divisor is not zero. Timestamps are integers (milliseconds).

  \<open>x || d\<close> on a number yields \<open>d\<close> when \<open>x\<close> is falsy, that is when it is zero.
\<close>

definition js_or :: "real \<Rightarrow> real \<Rightarrow> real" where
  "js_or x d = (if x = 0 then d else x)"

section \<open>Data model\<close>

datatype side = Long | Short

text \<open>The elements of \<open>IAgent.activePositions\<close> (models/Agent.ts).\<close>

record position =
  coin :: string
  entry_price :: real
  current_price :: real
  profit_target :: real
  stop_loss :: real
  leverage :: real
  size_usd :: real
  signal :: side
  opened_at :: int
  expected_duration :: string

datatype trade_type = Entry | Exit

text \<open>The fields of \<open>ITrade\<close> (models/Trade.ts) that the balance calculator reads.\<close>

record trade =
  trade_agentId :: string
  trade_pair :: string
  trade_side :: side
  trade_pnl :: real
  trade_pnlAbsolute :: real
  trade_timestamp :: int
  tradeType :: trade_type

text \<open>
  The fields of \<open>IAgent\<close> that the trading core reads or writes. \<open>activePositions\<close> is
  an array, as the interface declares it, so that the guard \<open>agent.activePositions || []\<close>
  of the code yields the array itself.
\<close>

record agent =
  agent_id :: string
  name :: string
  strategy :: string
  balance :: real
  pnl :: real
  pnlAbsolute :: real
  winRate :: real
  totalTrades :: nat
  activePositions :: "position list"

text \<open>
  A \<open>Record<string, number>\<close> of prices is an association list: the order of its keys is
  the iteration order of \<open>Object.keys\<close>. A lookup \<open>prices[coin]\<close> is \<open>map_of\<close>.
\<close>

type_synonym prices = "(string \<times> real) list"

section \<open>PnL of one position\<close>

text \<open>\<open>calculatePnL\<close> (aster-prices): the PnL percentage of a trade.\<close>

definition calculatePnL :: "side \<Rightarrow> real \<Rightarrow> real \<Rightarrow> real" where
  "calculatePnL sd entryPrice exitPrice =
     (if sd = Long then ((exitPrice - entryPrice) / entryPrice) * 100
      else ((entryPrice - exitPrice) / entryPrice) * 100)"

text \<open>
  \<open>closePaperPosition\<close> (paper-vs-real comparison): closes a paper position at
  \<open>exitPrice\<close>; it adds the absolute PnL to the balance, removes every active position
  on the same coin and returns the percentage and absolute PnL.
\<close>

record close_result =
  closed_success :: bool
  closed_agent :: agent
  closed_pnl :: real
  closed_pnlAbsolute :: real

definition closePaperPosition :: "agent \<Rightarrow> position \<Rightarrow> real \<Rightarrow> close_result" where
  "closePaperPosition a p exitPrice =
     (let priceChange = ((exitPrice - entry_price p) / entry_price p) * 100;
          pnl' = (if signal p = Long then priceChange else - priceChange);
          pnlAbsolute' = (pnl' / 100) * size_usd p
      in \<lparr> closed_success = True,
           closed_agent = a\<lparr> balance := balance a + pnlAbsolute',
               activePositions := filter (\<lambda>q. coin q \<noteq> coin p) (activePositions a) \<rparr>,
           closed_pnl = pnl',
           closed_pnlAbsolute = pnlAbsolute' \<rparr>)"

text \<open>
  \<open>calculateUnrealizedPnL\<close> of the agents route: the loop over the active positions,
  with the running sum as accumulator. A position whose coin has no price, or a price
  of zero, is skipped (\<open>if (!currentPrice) continue\<close>).
\<close>

fun route_calculateUnrealizedPnL_loop :: "prices \<Rightarrow> real \<Rightarrow> position list \<Rightarrow> real" where
  "route_calculateUnrealizedPnL_loop marketPrices totalPnL [] = totalPnL"
| "route_calculateUnrealizedPnL_loop marketPrices totalPnL (p # ps) =
     (case map_of marketPrices (coin p) of
        None \<Rightarrow> route_calculateUnrealizedPnL_loop marketPrices totalPnL ps
      | Some currentPrice \<Rightarrow>
          if currentPrice = 0 then route_calculateUnrealizedPnL_loop marketPrices totalPnL ps
          else
            let priceChange = ((currentPrice - entry_price p) / entry_price p) * 100;
                pnlPercent = (if signal p = Long then priceChange else - priceChange);
                pnlAbsolute' = (pnlPercent / 100) * js_or (size_usd p) 0
            in route_calculateUnrealizedPnL_loop marketPrices (totalPnL + pnlAbsolute') ps)"

definition route_calculateUnrealizedPnL :: "position list \<Rightarrow> prices \<Rightarrow> real" where
  "route_calculateUnrealizedPnL activePositions' marketPrices =
     route_calculateUnrealizedPnL_loop marketPrices 0 activePositions'"

section \<open>Paper balance (balance-calculator)\<close>

definition INITIAL_BALANCE :: real where
  "INITIAL_BALANCE = 1000"

text \<open>
  \<open>Trade.find({agentId, tradeType})\<close>: the stored trades of one agent and one kind, in
  storage order.
\<close>

definition Trade_find :: "trade list \<Rightarrow> string \<Rightarrow> trade_type \<Rightarrow> trade list" where
  "Trade_find trades aid ty = filter (\<lambda>t. trade_agentId t = aid \<and> tradeType t = ty) trades"

text \<open>\<open>getRealizedPnL\<close>: the \<open>reduce\<close> over the exit trades, from 0.\<close>

definition getRealizedPnL :: "trade list \<Rightarrow> string \<Rightarrow> real" where
  "getRealizedPnL trades aid =
     foldl (\<lambda>sum t. sum + js_or (trade_pnlAbsolute t) 0) 0 (Trade_find trades aid Exit)"

text \<open>\<open>calculateUnrealizedPnL\<close> of the balance calculator, as a loop with accumulator.\<close>

fun calculateUnrealizedPnL_loop :: "prices \<Rightarrow> real \<Rightarrow> position list \<Rightarrow> real" where
  "calculateUnrealizedPnL_loop currentPrices totalPnL [] = totalPnL"
| "calculateUnrealizedPnL_loop currentPrices totalPnL (p # ps) =
     (case map_of currentPrices (coin p) of
        None \<Rightarrow> calculateUnrealizedPnL_loop currentPrices totalPnL ps
      | Some currentPrice \<Rightarrow>
          if currentPrice = 0 then calculateUnrealizedPnL_loop currentPrices totalPnL ps
          else
            let priceChange = ((currentPrice - entry_price p) / entry_price p) * 100;
                pnlPercent = (if signal p = Long then priceChange else - priceChange);
                pnlAbsolute' = (pnlPercent / 100) * size_usd p
            in calculateUnrealizedPnL_loop currentPrices (totalPnL + pnlAbsolute') ps)"

definition calculateUnrealizedPnL :: "position list \<Rightarrow> prices \<Rightarrow> real" where
  "calculateUnrealizedPnL activePositions' currentPrices =
     calculateUnrealizedPnL_loop currentPrices 0 activePositions'"

definition calculateAgentBalance :: "trade list \<Rightarrow> agent \<Rightarrow> prices \<Rightarrow> real" where
  "calculateAgentBalance trades a currentPrices =
     (let realizedPnL = getRealizedPnL trades (agent_id a);
          unrealizedPnL = calculateUnrealizedPnL (activePositions a) currentPrices
      in INITIAL_BALANCE + realizedPnL + unrealizedPnL)"

text \<open>
  \<open>updateAgentBalance\<close>: stores the computed balance and the metrics derived from it in
  the agent (the returned agent is the one saved). Win rate and trade count are only
  rewritten when the agent has exit trades.
\<close>

definition updateAgentBalance :: "trade list \<Rightarrow> agent \<Rightarrow> prices \<Rightarrow> agent" where
  "updateAgentBalance trades a currentPrices =
     (let newBalance = calculateAgentBalance trades a currentPrices;
          a1 = a\<lparr> balance := newBalance,
                  pnlAbsolute := newBalance - INITIAL_BALANCE,
                  pnl := ((newBalance - INITIAL_BALANCE) / INITIAL_BALANCE) * 100 \<rparr>;
          exitTrades = Trade_find trades (agent_id a) Exit
      in if length exitTrades > 0
         then a1\<lparr> winRate :=
                     (real (length (filter (\<lambda>t. trade_pnl t > 0) exitTrades))
                        / real (length exitTrades)) * 100,
                   totalTrades := length exitTrades \<rparr>
         else a1)"

text \<open>
  The balance as the specification words it: the unrealized PnL of one position at the
  price quoted for its coin (0 when no price is available; a quote of zero counts as no
  price, as in the code), and the paper balance as initial balance plus the realized
  PnL of the exit trades plus the unrealized PnL of the open positions.
\<close>

definition quoted_price :: "prices \<Rightarrow> string \<Rightarrow> real option" where
  "quoted_price ps c =
     (case map_of ps c of None \<Rightarrow> None | Some x \<Rightarrow> if x = 0 then None else Some x)"

definition spec_pnl_percent :: "side \<Rightarrow> real \<Rightarrow> real \<Rightarrow> real" where
  "spec_pnl_percent sd e x = (case sd of Long \<Rightarrow> (x - e) / e * 100 | Short \<Rightarrow> (e - x) / e * 100)"

definition spec_unrealizedPnL :: "position \<Rightarrow> real option \<Rightarrow> real" where
  "spec_unrealizedPnL p price =
     (case price of None \<Rightarrow> 0
      | Some x \<Rightarrow> spec_pnl_percent (signal p) (entry_price p) x / 100 * size_usd p)"

definition spec_paper_balance :: "trade list \<Rightarrow> position list \<Rightarrow> prices \<Rightarrow> real" where
  "spec_paper_balance exitTrades openPositions ps =
     1000 + sum_list (map trade_pnlAbsolute exitTrades)
          + sum_list (map (\<lambda>p. spec_unrealizedPnL p (quoted_price ps (coin p))) openPositions)"

section \<open>Trading engine: simulated decisions\<close>

text \<open>
  Template strings keep their literal parts; an interpolated number stays a number
  (\<open>Num\<close>) or a number with its \<open>toFixed\<close> precision (\<open>Fixed\<close>), since the decimal
  rendering of a fractional number is not part of the model.
\<close>

datatype text_part = Lit string | Num real | Fixed nat real

type_synonym template = "text_part list"

text \<open>
  \<open>trade_signal_args.signal\<close> is one of the strings \<open>wait\<close>, \<open>hold\<close>, \<open>close\<close>,
  \<open>long\<close>, \<open>short\<close>.
\<close>

datatype trade_signal = Wait | Hold | Close | Open side

record trade_signal_args =
  tsa_coin :: string
  tsa_signal :: trade_signal
  tsa_quantity :: "real option"
  tsa_entry_price :: "real option"
  tsa_profit_target :: "real option"
  tsa_stop_loss :: "real option"
  tsa_leverage :: "real option"
  tsa_confidence :: "real option"
  tsa_risk_usd :: "real option"
  tsa_size_usd :: "real option"
  tsa_expected_duration :: "string option"
  tsa_invalidation_condition :: "template option"
  tsa_justification :: template

text \<open>An object literal that sets only \<open>coin\<close>, \<open>signal\<close> and \<open>justification\<close>.\<close>

definition signal_args :: "string \<Rightarrow> trade_signal \<Rightarrow> template \<Rightarrow> trade_signal_args" where
  "signal_args c sg j =
     \<lparr> tsa_coin = c, tsa_signal = sg, tsa_quantity = None, tsa_entry_price = None,
       tsa_profit_target = None, tsa_stop_loss = None, tsa_leverage = None,
       tsa_confidence = None, tsa_risk_usd = None, tsa_size_usd = None,
       tsa_expected_duration = None, tsa_invalidation_condition = None,
       tsa_justification = j \<rparr>"

text \<open>
  \<open>obj[key] = value\<close> on an object kept as an association list: an existing key keeps
  its place and takes the new value, a new key goes to the end.
\<close>

fun obj_set :: "('k \<times> 'v) list \<Rightarrow> 'k \<Rightarrow> 'v \<Rightarrow> ('k \<times> 'v) list" where
  "obj_set [] k v = [(k, v)]"
| "obj_set ((k', v') # kvs) k v =
     (if k' = k then (k, v) # kvs else (k', v') # obj_set kvs k v)"

type_synonym decisions = "(string \<times> trade_signal_args) list"

record market_data =
  md_timestamp :: int
  md_prices :: prices
  md_volatility :: "prices option"

text \<open>
  \<open>Math.random()\<close> draws from a stream of 53-bit integers and scales the draw into
  [0, 1); the rest of the stream is the generator's next state.
\<close>

type_synonym rng = "nat stream"

definition Math_random :: "rng \<Rightarrow> real \<times> rng" where
  "Math_random g = (real (shd g mod 2 ^ 53) / 2 ^ 53, stl g)"

definition LEVERAGE_OPTIONS :: "real list" where
  "LEVERAGE_OPTIONS = [5, 8, 10, 12, 15, 20]"

definition side_name :: "side \<Rightarrow> string" where
  "side_name sd = (case sd of Long \<Rightarrow> ''long'' | Short \<Rightarrow> ''short'')"

definition side_upper :: "side \<Rightarrow> string" where
  "side_upper sd = (case sd of Long \<Rightarrow> ''LONG'' | Short \<Rightarrow> ''SHORT'')"

text \<open>
  The body of the loop over the existing positions (trading engine, exit check): the
  decision recorded for one position at the current price of its coin.
\<close>

definition exit_check :: "position \<Rightarrow> real \<Rightarrow> trade_signal_args" where
  "exit_check p currentPrice =
     (if currentPrice \<le> stop_loss p \<or> currentPrice \<ge> profit_target p
      then (signal_args (coin p) Close
              [Lit ''Hit '',
               Lit (if currentPrice \<le> stop_loss p then ''stop loss'' else ''take profit''),
               Lit '' at '', Num currentPrice])
             \<lparr> tsa_entry_price := Some currentPrice \<rparr>
      else signal_args (coin p) Hold [Lit ''Position still valid''])"

fun exit_loop :: "prices \<Rightarrow> decisions \<times> template \<Rightarrow> position list \<Rightarrow> decisions \<times> template" where
  "exit_loop ps (ds, conclusion) [] = (ds, conclusion)"
| "exit_loop ps (ds, conclusion) (p # rest) =
     (case map_of ps (coin p) of
        None \<Rightarrow> exit_loop ps (ds, conclusion) rest
      | Some currentPrice \<Rightarrow>
          if currentPrice = 0 then exit_loop ps (ds, conclusion) rest
          else if currentPrice \<le> stop_loss p \<or> currentPrice \<ge> profit_target p
          then exit_loop ps
                 (obj_set ds (coin p) (exit_check p currentPrice),
                  conclusion @ [Lit ''Closing '', Lit (coin p), Lit '' '',
                                Lit (side_name (signal p)), Lit '' at '',
                                Fixed 2 currentPrice, Lit ''. ''])
                 rest
          else exit_loop ps (obj_set ds (coin p) (exit_check p currentPrice), conclusion) rest)"

text \<open>
  The entry signal generated for one coin once the draws say to trade, with the text
  it appends to the conclusion.
\<close>

definition expected_duration_of :: "real \<Rightarrow> string" where
  "expected_duration_of lev =
     (if lev \<ge> 15 then ''15min'' else if lev \<ge> 12 then ''30min''
      else if lev \<ge> 10 then ''60min'' else ''2h_to_8h'')"

definition volatility_of :: "market_data \<Rightarrow> string \<Rightarrow> real" where
  "volatility_of md c =
     (case md_volatility md of None \<Rightarrow> 1
      | Some vs \<Rightarrow> (case map_of vs c of None \<Rightarrow> 1 | Some v \<Rightarrow> js_or v 1))"

definition generate_trade ::
  "agent \<Rightarrow> market_data \<Rightarrow> string \<Rightarrow> real \<Rightarrow> real \<Rightarrow> rng
     \<Rightarrow> trade_signal_args \<times> template \<times> rng" where
  "generate_trade a md c currentPrice confidence g =
     (let (r1, g1) = Math_random g;
          sg = (if r1 > 0.5 then Long else Short);
          (r2, g2) = Math_random g1;
          lev = LEVERAGE_OPTIONS ! nat \<lfloor>r2 * real (length LEVERAGE_OPTIONS)\<rfloor>;
          baseRisk = 5 + confidence * 10;
          riskUsd = (balance a * baseRisk) / 100;
          sizeUsd = riskUsd * lev;
          volatility = volatility_of md c;
          stopLossPercent = max 0.3 (volatility * 0.5);
          takeProfitPercent = max 0.5 (volatility * 1.5);
          stopLoss = (if sg = Long then currentPrice * (1 - stopLossPercent / 100)
                      else currentPrice * (1 + stopLossPercent / 100));
          profitTarget = (if sg = Long then currentPrice * (1 + takeProfitPercent / 100)
                          else currentPrice * (1 - takeProfitPercent / 100))
      in (\<lparr> tsa_coin = c, tsa_signal = Open sg, tsa_quantity = Some sizeUsd,
            tsa_entry_price = Some currentPrice, tsa_profit_target = Some profitTarget,
            tsa_stop_loss = Some stopLoss, tsa_leverage = Some lev,
            tsa_confidence = Some confidence, tsa_risk_usd = Some riskUsd,
            tsa_size_usd = Some sizeUsd,
            tsa_expected_duration = Some (expected_duration_of lev),
            tsa_invalidation_condition =
              Some [Lit (side_upper sg), Lit '' invalidation on '',
                    Fixed 2 stopLossPercent, Lit ''% move''],
            tsa_justification =
              [Lit (strategy a), Lit '' setup on '', Lit c, Lit '' - '',
               Fixed 2 confidence, Lit '' confidence''] \<rparr>,
          [Lit c, Lit '' '', Lit (side_upper sg), Lit '' opportunity - '',
           Fixed 2 confidence, Lit '' confidence. ''],
          g2))"

text \<open>
  The loop over the available markets. The second draw of \<open>shouldTrade\<close> is taken only
  when \<open>confidence > 0.6\<close> holds (\<open>&&\<close> short-circuits).
\<close>

fun entry_loop ::
  "agent \<Rightarrow> market_data \<Rightarrow> position list \<Rightarrow> (decisions \<times> template) \<times> rng \<Rightarrow> string list
     \<Rightarrow> (decisions \<times> template) \<times> rng" where
  "entry_loop a md aps st [] = st"
| "entry_loop a md aps ((ds, conclusion), g) (c # rest) =
     (if list_ex (\<lambda>p. coin p = c) aps then entry_loop a md aps ((ds, conclusion), g) rest
      else case map_of (md_prices md) c of
        None \<Rightarrow> entry_loop a md aps ((ds, conclusion), g) rest
      | Some currentPrice \<Rightarrow>
          if currentPrice = 0 then entry_loop a md aps ((ds, conclusion), g) rest
          else
            let (r0, g0) = Math_random g;
                confidence = r0 * 0.4 + 0.6;
                (shouldTrade, g1) =
                  (if confidence > 0.6
                   then (let (r, g') = Math_random g0 in (r > 0.7, g'))
                   else (False, g0))
            in if \<not> shouldTrade
               then entry_loop a md aps
                      ((obj_set ds c (signal_args c Wait [Lit ''No clear setup'']), conclusion), g1)
                      rest
               else
                 let (args, note, g2) = generate_trade a md c currentPrice confidence g1
                 in entry_loop a md aps ((obj_set ds c args, conclusion @ note), g2) rest)"

text \<open>
  The simulated path of \<open>generateAgentDecision\<close> (taken when no OpenAI key is
  configured): exit checks on the existing positions, then, unless the current exposure
  is at least 70 percent of the balance, entry signals for the markets without a
  position.
\<close>

definition exposurePercent :: "agent \<Rightarrow> real" where
  "exposurePercent a =
     (let totalExposure =
            foldl (\<lambda>sum pos. sum + js_or (size_usd pos) 0) 0
              (activePositions a)
      in (totalExposure / balance a) * 100)"

definition simulated_decision ::
  "agent \<Rightarrow> market_data \<Rightarrow> rng \<Rightarrow> (decisions \<times> template) \<times> rng" where
  "simulated_decision a md g =
     (let aps = activePositions a;
          (ds, conclusion) = exit_loop (md_prices md) ([], []) aps
      in if exposurePercent a \<ge> 70
         then ((ds, conclusion @ [Lit ''Exposure at '', Fixed 1 (exposurePercent a),
                                  Lit ''% - waiting. '']), g)
         else entry_loop a md aps ((ds, conclusion), g) (map fst (md_prices md)))"

text \<open>Every decision in the map is a close or a hold.\<close>

definition exit_only :: "decisions \<Rightarrow> bool" where
  "exit_only ds = list_all (\<lambda>(c, d). tsa_signal d = Close \<or> tsa_signal d = Hold) ds"

section \<open>Request parameters as JavaScript values\<close>

text \<open>
  The values that order and query parameters can hold. Their numbers are integers
  (timestamps, windows, leverage multipliers) below 10^21 in size, which JavaScript
  writes as plain decimal numerals: the rendering of a fractional or larger number is
  not part of the model. Strings are byte strings; the model follows the code on ASCII
  text. An object is the list of its own properties in insertion order,
  with distinct keys.
\<close>

datatype jsval =
    Undefined
  | Null
  | Bool bool
  | Number int
  | String string
  | Array "jsval list"
  | Object "(string \<times> jsval) list"

type_synonym js_object = "(string \<times> jsval) list"

definition obj_get :: "('k \<times> jsval) list \<Rightarrow> 'k \<Rightarrow> jsval" where
  "obj_get kvs k = (case map_of kvs k of None \<Rightarrow> Undefined | Some v \<Rightarrow> v)"

fun truthy :: "jsval \<Rightarrow> bool" where
  "truthy Undefined = False"
| "truthy Null = False"
| "truthy (Bool b) = b"
| "truthy (Number n) = (n \<noteq> 0)"
| "truthy (String s) = (s \<noteq> [])"
| "truthy (Array xs) = True"
| "truthy (Object kvs) = True"

text \<open>\<open>typeof v === 'object'\<close> holds of \<open>null\<close>, arrays and objects.\<close>

fun typeof_object :: "jsval \<Rightarrow> bool" where
  "typeof_object Null = True"
| "typeof_object (Array xs) = True"
| "typeof_object (Object kvs) = True"
| "typeof_object v = False"

subsection \<open>Decimal numerals\<close>

definition digit_char :: "nat \<Rightarrow> char" where
  "digit_char d = ''0123456789'' ! d"

fun show_nat :: "nat \<Rightarrow> string" where
  "show_nat n = (if n < 10 then [digit_char n] else show_nat (n div 10) @ [digit_char (n mod 10)])"

declare show_nat.simps [simp del]

definition show_int :: "int \<Rightarrow> string" where
  "show_int i = (if i < 0 then CHR ''-'' # show_nat (nat (- i)) else show_nat (nat i))"

fun join :: "string \<Rightarrow> string list \<Rightarrow> string" where
  "join sep [] = []"
| "join sep [x] = x"
| "join sep (x # y # ys) = x @ sep @ join sep (y # ys)"

subsection \<open>\<open>String(v)\<close>\<close>

fun js_String :: "jsval \<Rightarrow> string" where
  "js_String Undefined = ''undefined''"
| "js_String Null = ''null''"
| "js_String (Bool b) = (if b then ''true'' else ''false'')"
| "js_String (Number n) = show_int n"
| "js_String (String s) = s"
| "js_String (Array xs) =
     join '','' (map (\<lambda>v. if v = Undefined \<or> v = Null then [] else js_String v) xs)"
| "js_String (Object kvs) = ''[object Object]''"

subsection \<open>\<open>JSON.stringify\<close>\<close>

definition hex_char :: "nat \<Rightarrow> char" where
  "hex_char d = ''0123456789abcdef'' ! d"

text \<open>
  The escape of one character inside a JSON string: the quote, the backslash, the
  short escapes of backspace, tab, newline, form feed and carriage return, and
  \<open>\u00XX\<close> for the other control characters.
\<close>

definition json_escape :: "char \<Rightarrow> string" where
  "json_escape c =
     (let n = (of_char c :: nat) in
      if c = CHR ''\"'' then [CHR 0x5C, CHR ''\"'']
      else if n = 0x5C then [CHR 0x5C, CHR 0x5C]
      else if n = 8 then [CHR 0x5C, CHR ''b'']
      else if n = 9 then [CHR 0x5C, CHR ''t'']
      else if n = 10 then [CHR 0x5C, CHR ''n'']
      else if n = 12 then [CHR 0x5C, CHR ''f'']
      else if n = 13 then [CHR 0x5C, CHR ''r'']
      else if n < 32 then [CHR 0x5C, CHR ''u'', CHR ''0'', CHR ''0'', hex_char (n div 16), hex_char (n mod 16)]
      else [c])"

definition json_quote :: "string \<Rightarrow> string" where
  "json_quote s = [CHR ''\"''] @ concat (map json_escape s) @ [CHR ''\"'']"

text \<open>
  \<open>JSON.stringify(v)\<close> for a value that has a JSON text. \<open>undefined\<close> is written
  \<open>null\<close> as an array element and its property is left out of an object.
\<close>

fun JSON_stringify :: "jsval \<Rightarrow> string" where
  "JSON_stringify Undefined = ''null''"
| "JSON_stringify Null = ''null''"
| "JSON_stringify (Bool b) = (if b then ''true'' else ''false'')"
| "JSON_stringify (Number n) = show_int n"
| "JSON_stringify (String s) = json_quote s"
| "JSON_stringify (Array xs) = ''['' @ join '','' (map JSON_stringify xs) @ '']''"
| "JSON_stringify (Object kvs) =
     ''{'' @ join '',''
        (map (\<lambda>(k, v). json_quote k @ '':'' @ JSON_stringify v)
           (filter (\<lambda>(k, v). v \<noteq> Undefined) kvs)) @ ''}''"

text \<open>
  \<open>JSON.stringify(obj, keys)\<close> with an array of distinct keys as replacer, on an
  object whose values are strings: the listed properties that the object has, in the
  order of the list.
\<close>

definition JSON_stringify_keys :: "(string \<times> string) list \<Rightarrow> string list \<Rightarrow> string" where
  "JSON_stringify_keys obj keys =
     ''{'' @ join '',''
        (map (\<lambda>k. json_quote k @ '':'' @ json_quote (the (map_of obj k)))
           (filter (\<lambda>k. map_of obj k \<noteq> None) keys)) @ ''}''"

section \<open>Order signing and submission (aster-real-trading)\<close>

text \<open>
  The clock is the stream of its successive readings: \<open>Date.now()\<close> takes the head
  and leaves the tail.
\<close>

type_synonym clock = "int stream"

definition Date_now :: "clock \<Rightarrow> int \<times> clock" where
  "Date_now clk = (shd clk, stl clk)"

text \<open>
  A parsed JSON document, as \<open>response.json()\<close> and \<open>JSON.parse\<close> return it; its numbers
  are reals.
\<close>

datatype json =
    JNull
  | JBool bool
  | JNum real
  | JStr string
  | JArr "json list"
  | JObj "(string \<times> json) list"

text \<open>
  Reading a property of a parsed value. \<open>None\<close> is \<open>undefined\<close>; reading a property of
  \<open>null\<close> throws, which \<open>get_prop\<close> leaves to its callers.
\<close>

definition get_prop :: "json \<Rightarrow> string \<Rightarrow> json option" where
  "get_prop v k = (case v of JObj kvs \<Rightarrow> map_of kvs k | _ \<Rightarrow> None)"

fun json_truthy :: "json option \<Rightarrow> bool" where
  "json_truthy None = False"
| "json_truthy (Some JNull) = False"
| "json_truthy (Some (JBool b)) = b"
| "json_truthy (Some (JNum x)) = (x \<noteq> 0)"
| "json_truthy (Some (JStr s)) = (s \<noteq> [])"
| "json_truthy (Some (JArr xs)) = True"
| "json_truthy (Some (JObj kvs)) = True"

text \<open>What the client code throws or rejects with.\<close>

datatype error =
    SigningError
  | NetworkError
  | TypeError
  | InvalidJson
  | AsterApiError nat json
  | BalanceFetchFailed nat json
  | UsdtNotFound
  | SaveFailed

record AgentWalletConfig =
  user :: string
  signer :: string
  privateKey :: string

text \<open>
  The functions of the \<open>ethers\<close> library are parameters of the model. \<open>abi_encode\<close>
  is \<open>AbiCoder.encode\<close> at the types (string, address, address, uint256);
  \<open>signMessage\<close> takes the private key of the wallet and the bytes of the hash, as
  \<open>new Wallet(key).signMessage(getBytes(hash))\<close> does. Where the library throws (a
  malformed address or key, a negative nonce) the function returns \<open>None\<close>.
\<close>

record ethers =
  abi_encode :: "string \<Rightarrow> string \<Rightarrow> string \<Rightarrow> int \<Rightarrow> string option"
  keccak256 :: "string \<Rightarrow> string"
  signMessage :: "string \<Rightarrow> string \<Rightarrow> string option"

definition generateNonce :: "clock \<Rightarrow> int \<times> clock" where
  "generateNonce clk = (let (now, clk') = Date_now clk in (now * 1000, clk'))"

text \<open>
  The string that \<open>trimAndSortParams\<close> stores for a value that is neither \<open>null\<close>
  nor \<open>undefined\<close>.
\<close>

definition trim_value :: "jsval \<Rightarrow> string" where
  "trim_value v =
     (case v of
        Array xs \<Rightarrow>
          JSON_stringify
            (Array (map (\<lambda>x. String (if typeof_object x then JSON_stringify x else js_String x)) xs))
      | Object kvs \<Rightarrow> JSON_stringify v
      | _ \<Rightarrow> js_String v)"

fun trimAndSortParams_loop :: "(string \<times> string) list \<Rightarrow> js_object \<Rightarrow> (string \<times> string) list" where
  "trimAndSortParams_loop trimmed [] = trimmed"
| "trimAndSortParams_loop trimmed ((k, v) # rest) =
     (if v = Null \<or> v = Undefined then trimAndSortParams_loop trimmed rest
      else trimAndSortParams_loop (obj_set trimmed k (trim_value v)) rest)"

definition trimAndSortParams :: "js_object \<Rightarrow> (string \<times> string) list" where
  "trimAndSortParams params = trimAndSortParams_loop [] params"

text \<open>
  \<open>/\s/\<close> on ASCII text: tab, line feed, vertical tab, form feed, carriage return and
  space.
\<close>

definition is_space :: "char \<Rightarrow> bool" where
  "is_space c = (let n = (of_char c :: nat) in (9 \<le> n \<and> n \<le> 13) \<or> n = 32)"

text \<open>
  Steps 1 to 3 of \<open>generateAsterSignature\<close>: the parameters with \<open>recvWindow\<close> and
  the given \<open>timestamp\<close> merged in, trimmed, written as JSON with sorted keys, with
  whitespace removed and single quotes replaced by double quotes.
\<close>

definition signed_json :: "js_object \<Rightarrow> int \<Rightarrow> string" where
  "signed_json params timestamp =
     (let paramsWithMeta =
            obj_set (obj_set params ''recvWindow'' (Number 50000)) ''timestamp'' (Number timestamp);
          trimmed = trimAndSortParams paramsWithMeta;
          jsonStr = JSON_stringify_keys trimmed (sort (map fst trimmed))
      in map (\<lambda>c. if c = CHR 0x27 then CHR ''\"'' else c) (filter (\<lambda>c. \<not> is_space c) jsonStr))"

definition generateAsterSignature ::
  "ethers \<Rightarrow> js_object \<Rightarrow> AgentWalletConfig \<Rightarrow> int \<Rightarrow> clock \<Rightarrow> (error + string) \<times> clock" where
  "generateAsterSignature eth params walletConfig nonce clk =
     (let (now, clk') = Date_now clk;
          jsonStr = signed_json params now
      in case abi_encode eth jsonStr (user walletConfig) (signer walletConfig) nonce of
           None \<Rightarrow> (Inl SigningError, clk')
         | Some encoded \<Rightarrow>
             (case signMessage eth (privateKey walletConfig) (keccak256 eth encoded) of
                None \<Rightarrow> (Inl SigningError, clk')
              | Some signature \<Rightarrow> (Inr signature, clk')))"

subsection \<open>Notions used to state what the signature depends on\<close>






subsection \<open>HTTP\<close>

record http_request =
  req_method :: string
  req_url :: string
  req_params :: "(string \<times> string) list"

text \<open>
  What \<open>fetch\<close> yields: a rejection, or a response with its status, status text and
  body; the body is \<open>None\<close> when \<open>response.json()\<close> rejects.
\<close>

datatype http_reply =
    FetchRejects
  | Response (status: nat) (statusText: string) (body: "json option")

definition response_ok :: "http_reply \<Rightarrow> bool" where
  "response_ok r = (case r of FetchRejects \<Rightarrow> False | Response st _ _ \<Rightarrow> 200 \<le> st \<and> st \<le> 299)"

definition ASTER_FUTURES_API :: string where
  "ASTER_FUTURES_API = ''https://fapi.asterdex.com''"

text \<open>
  The message part \<open>errorData.msg || response.statusText\<close> of a failed response, where
  \<open>errorData\<close> is the body or, when the body is not JSON, the empty object. A body
  that is \<open>null\<close> makes the property read throw.
\<close>

definition error_message :: "string \<Rightarrow> json option \<Rightarrow> error + json" where
  "error_message st_text b =
     (case b of
        None \<Rightarrow> Inr (JStr st_text)
      | Some JNull \<Rightarrow> Inl TypeError
      | Some errorData \<Rightarrow>
          (if json_truthy (get_prop errorData ''msg'') then Inr (the (get_prop errorData ''msg''))
           else Inr (JStr st_text)))"

text \<open>
  \<open>placeAsterOrder\<close>. The result is the value the promise resolves to, or the error
  it rejects with, together with the requests handed to \<open>fetch\<close>. The clock is read
  three times: for the nonce, inside \<open>generateAsterSignature\<close>, and for the
  \<open>timestamp\<close> of the request body.
\<close>

definition placeAsterOrder ::
  "ethers \<Rightarrow> (http_request \<Rightarrow> http_reply) \<Rightarrow> js_object \<Rightarrow> AgentWalletConfig \<Rightarrow> clock
     \<Rightarrow> ((error + json) \<times> http_request list) \<times> clock" where
  "placeAsterOrder eth fetch orderParams walletConfig clk =
     (let (nonce, clk1) = generateNonce clk;
          lev = obj_get orderParams ''leverage'';
          paramsForSign =
            obj_set orderParams ''leverage''
              (if truthy lev then String (js_String lev) else Undefined);
          (sig, clk2) = generateAsterSignature eth paramsForSign walletConfig nonce clk1
      in case sig of
           Inl e \<Rightarrow> ((Inl e, []), clk2)
         | Inr signature \<Rightarrow>
             let (now, clk3) = Date_now clk2;
                 b1 = obj_set paramsForSign ''nonce'' (String (js_String (Number nonce)));
                 b2 = obj_set b1 ''user'' (String (user walletConfig));
                 b3 = obj_set b2 ''signer'' (String (signer walletConfig));
                 b4 = obj_set b3 ''signature'' (String signature);
                 b5 = obj_set b4 ''recvWindow'' (Number 50000);
                 requestBody = obj_set b5 ''timestamp'' (Number now);
                 defined = filter (\<lambda>(k, v). v \<noteq> Undefined) requestBody;
                 req = \<lparr> req_method = ''POST'',
                         req_url = ASTER_FUTURES_API @ ''/fapi/v3/order'',
                         req_params = map (\<lambda>(k, v). (k, js_String v)) defined \<rparr>
             in case fetch req of
                  FetchRejects \<Rightarrow> ((Inl NetworkError, [req]), clk3)
                | Response st st_text b \<Rightarrow>
                    if \<not> response_ok (Response st st_text b)
                    then (case error_message st_text b of
                            Inl e \<Rightarrow> ((Inl e, [req]), clk3)
                          | Inr m \<Rightarrow> ((Inl (AsterApiError st m), [req]), clk3))
                    else (case b of
                            None \<Rightarrow> ((Inl InvalidJson, [req]), clk3)
                          | Some orderData \<Rightarrow> ((Inr orderData, [req]), clk3)))"

subsection \<open>Balance query and reconciliation\<close>

text \<open>
  \<open>balances.find(b => b.asset === 'USDT')\<close> on the elements of the reply: reading
  \<open>asset\<close> of a \<open>null\<close> element throws.
\<close>

fun find_usdt :: "json list \<Rightarrow> error + json option" where
  "find_usdt [] = Inr None"
| "find_usdt (b # bs) =
     (if b = JNull then Inl TypeError
      else if get_prop b ''asset'' = Some (JStr ''USDT'') then Inr (Some b)
      else find_usdt bs)"

text \<open>
  \<open>getAsterAccountBalance\<close>. \<open>parseFloat\<close> is a parameter: it reads the \<open>balance\<close>
  property of the USDT entry (\<open>None\<close> when the property is missing) as a number.
\<close>

definition getAsterAccountBalance ::
  "ethers \<Rightarrow> (http_request \<Rightarrow> http_reply) \<Rightarrow> (json option \<Rightarrow> real) \<Rightarrow> AgentWalletConfig \<Rightarrow> clock
     \<Rightarrow> (error + real) \<times> clock" where
  "getAsterAccountBalance eth fetch parseFloat walletConfig clk =
     (let (nonce, clk1) = generateNonce clk;
          (timestamp, clk2) = Date_now clk1;
          params = [(''recvWindow'', Number 50000), (''timestamp'', Number timestamp)];
          (sig, clk3) = generateAsterSignature eth params walletConfig nonce clk2
      in case sig of
           Inl e \<Rightarrow> (Inl e, clk3)
         | Inr signature \<Rightarrow>
             let req = \<lparr> req_method = ''GET'',
                         req_url = ASTER_FUTURES_API @ ''/fapi/v3/balance'',
                         req_params =
                           [(''recvWindow'', js_String (obj_get params ''recvWindow'')),
                            (''timestamp'', js_String (obj_get params ''timestamp'')),
                            (''nonce'', js_String (Number nonce)),
                            (''user'', user walletConfig),
                            (''signer'', signer walletConfig),
                            (''signature'', signature)] \<rparr>
             in case fetch req of
                  FetchRejects \<Rightarrow> (Inl NetworkError, clk3)
                | Response st st_text b \<Rightarrow>
                    if \<not> response_ok (Response st st_text b)
                    then (case error_message st_text b of
                            Inl e \<Rightarrow> (Inl e, clk3)
                          | Inr m \<Rightarrow> (Inl (BalanceFetchFailed st m), clk3))
                    else (case b of
                            None \<Rightarrow> (Inl InvalidJson, clk3)
                          | Some (JArr balances) \<Rightarrow>
                              (case find_usdt balances of
                                 Inl e \<Rightarrow> (Inl e, clk3)
                               | Inr None \<Rightarrow> (Inl UsdtNotFound, clk3)
                               | Inr (Some usdtBalance) \<Rightarrow>
                                   (Inr (parseFloat (get_prop usdtBalance ''balance'')), clk3))
                          | Some _ \<Rightarrow> (Inl TypeError, clk3)))"

text \<open>
  \<open>syncBalanceFromAster\<close>. The result holds the agent object after the call, the
  agent document written by \<open>agent.save()\<close> if one was written, and the error that
  the \<open>catch\<close> block logged, if any; the function itself never rejects. \<open>save_ok\<close>
  says whether the storage accepts the write.
\<close>

record sync_result =
  agent_after :: agent
  saved :: "agent option"
  logged_failure :: "error option"

definition syncBalanceFromAster ::
  "ethers \<Rightarrow> (http_request \<Rightarrow> http_reply) \<Rightarrow> (json option \<Rightarrow> real) \<Rightarrow> bool
     \<Rightarrow> agent \<Rightarrow> AgentWalletConfig \<Rightarrow> real option \<Rightarrow> clock \<Rightarrow> sync_result \<times> clock" where
  "syncBalanceFromAster eth fetch parseFloat save_ok a walletConfig initialBalance' clk =
     (let initialBalance = (case initialBalance' of None \<Rightarrow> 1000 | Some b \<Rightarrow> b);
          (res, clk') = getAsterAccountBalance eth fetch parseFloat walletConfig clk
      in case res of
           Inl e \<Rightarrow> (\<lparr> agent_after = a, saved = None, logged_failure = Some e \<rparr>, clk')
         | Inr realBalance \<Rightarrow>
             let a' = a\<lparr> balance := realBalance,
                        pnlAbsolute := realBalance - initialBalance,
                        pnl := ((realBalance - initialBalance) / initialBalance) * 100 \<rparr>
             in if save_ok
                then (\<lparr> agent_after = a', saved = Some a', logged_failure = None \<rparr>, clk')
                else (\<lparr> agent_after = a', saved = None, logged_failure = Some SaveFailed \<rparr>, clk'))"

section \<open>Decision adapters (gemini-service, openai-service)\<close>

text \<open>
  The collaborator's reaction to one request: the call throws, or it returns a text
  (the empty text stands for a missing content). \<open>JSON.parse\<close> is a parameter of the
  adapters; it returns \<open>None\<close> where the real one throws a syntax error.
\<close>

datatype llm_outcome = LlmThrows | LlmText string

text \<open>
  \<open>text.match(/\{[\s\S]*\}/)\<close>: from the first opening brace to the last closing
  brace after it; the whole text when there is no such match.
\<close>

definition extract_json :: "string \<Rightarrow> string" where
  "extract_json text =
     (let from_brace = dropWhile (\<lambda>c. c \<noteq> CHR ''{'') text
      in if CHR ''}'' \<in> set from_brace
         then rev (dropWhile (\<lambda>c. c \<noteq> CHR ''}'') (rev from_brace))
         else text)"

text \<open>\<open>v || d\<close> and \<open>v !== undefined ? v : d\<close> on a property of the parsed reply.\<close>

definition or_default :: "json option \<Rightarrow> json \<Rightarrow> json" where
  "or_default v d = (case v of None \<Rightarrow> d | Some x \<Rightarrow> if json_truthy (Some x) then x else d)"

definition defined_or :: "json option \<Rightarrow> json \<Rightarrow> json" where
  "defined_or v d = (case v of None \<Rightarrow> d | Some x \<Rightarrow> x)"

record gemini_decision =
  action :: json
  orderType :: json
  symbol :: json
  side_field :: json
  size_field :: json
  sizePct :: json
  price :: json
  leverage_field :: json
  takeProfit :: json
  stopLoss :: json
  clientOrderId :: json
  reduceOnly :: json
  postOnly :: json
  timeInForce :: json
  simulate :: json
  confidence :: json
  reason :: json
  timestamp_field :: json

text \<open>The object returned by the \<open>catch\<close> block of the Gemini adapter.\<close>

definition gemini_fallback :: "string \<Rightarrow> gemini_decision" where
  "gemini_fallback now_iso =
     \<lparr> action = JStr ''none'', orderType = JStr ''market'', symbol = JNull, side_field = JNull,
       size_field = JNull, sizePct = JNull, price = JNull, leverage_field = JNull,
       takeProfit = JNull, stopLoss = JNull, clientOrderId = JNull, reduceOnly = JBool False,
       postOnly = JBool False, timeInForce = JNull, simulate = JBool True,
       confidence = JNum 0, reason = JStr ''AI error occurred'',
       timestamp_field = JStr now_iso \<rparr>"

text \<open>
  \<open>generateGeminiTradingDecision\<close> from the collaborator's outcome on: the prompt is
  built before the call and does not depend on the reply. \<open>now_iso\<close> is
  \<open>new Date().toISOString()\<close>.
\<close>

definition generateGeminiTradingDecision ::
  "(string \<Rightarrow> json option) \<Rightarrow> llm_outcome \<Rightarrow> string \<Rightarrow> gemini_decision" where
  "generateGeminiTradingDecision JSON_parse outcome now_iso =
     (case outcome of
        LlmThrows \<Rightarrow> gemini_fallback now_iso
      | LlmText text \<Rightarrow>
          if text = [] then gemini_fallback now_iso
          else (case JSON_parse (extract_json text) of
                  None \<Rightarrow> gemini_fallback now_iso
                | Some JNull \<Rightarrow> gemini_fallback now_iso
                | Some decision \<Rightarrow>
                    \<lparr> action = or_default (get_prop decision ''action'') (JStr ''none''),
                      orderType = or_default (get_prop decision ''orderType'') (JStr ''market''),
                      symbol = or_default (get_prop decision ''symbol'') JNull,
                      side_field = or_default (get_prop decision ''side'') JNull,
                      size_field = or_default (get_prop decision ''size'') JNull,
                      sizePct = or_default (get_prop decision ''sizePct'') JNull,
                      price = or_default (get_prop decision ''price'') JNull,
                      leverage_field = or_default (get_prop decision ''leverage'') JNull,
                      takeProfit = or_default (get_prop decision ''takeProfit'') JNull,
                      stopLoss = or_default (get_prop decision ''stopLoss'') JNull,
                      clientOrderId = or_default (get_prop decision ''clientOrderId'') JNull,
                      reduceOnly = defined_or (get_prop decision ''reduceOnly'') (JBool False),
                      postOnly = defined_or (get_prop decision ''postOnly'') (JBool False),
                      timeInForce = or_default (get_prop decision ''timeInForce'') JNull,
                      simulate = defined_or (get_prop decision ''simulate'') (JBool True),
                      confidence = or_default (get_prop decision ''confidence'') (JNum 0.5),
                      reason = or_default (get_prop decision ''reason'') (JStr ''AI decision error''),
                      timestamp_field = or_default (get_prop decision ''timestamp'') (JStr now_iso) \<rparr>))"

text \<open>The object returned by the \<open>catch\<close> block of the OpenAI adapter.\<close>

definition openai_fallback :: json where
  "openai_fallback =
     JObj [(''decisions'', JObj []), (''conclusion'', JStr ''AI decision generation failed'')]"

definition generateAITradingDecision :: "(string \<Rightarrow> json option) \<Rightarrow> llm_outcome \<Rightarrow> json" where
  "generateAITradingDecision JSON_parse outcome =
     (case outcome of
        LlmThrows \<Rightarrow> openai_fallback
      | LlmText response \<Rightarrow>
          if response = [] then openai_fallback
          else (case JSON_parse (extract_json response) of
                  None \<Rightarrow> openai_fallback
                | Some decision \<Rightarrow> decision))"

text \<open>
  \<open>generateAgentDecision\<close>: with an OpenAI key configured the collaborator's decision
  is returned as it is; otherwise the simulated decision. \<open>ai\<close> is \<open>None\<close> without a
  key, and the collaborator's outcome with one.
\<close>

datatype agent_decision = AiDecision json | SimulatedDecision decisions template

definition generateAgentDecision ::
  "(string \<Rightarrow> json option) \<Rightarrow> llm_outcome option \<Rightarrow> agent \<Rightarrow> market_data \<Rightarrow> rng
     \<Rightarrow> agent_decision \<times> rng" where
  "generateAgentDecision JSON_parse ai a md g =
     (case ai of
        Some outcome \<Rightarrow> (AiDecision (generateAITradingDecision JSON_parse outcome), g)
      | None \<Rightarrow>
          (let ((ds, conclusion), g') = simulated_decision a md g
           in (SimulatedDecision ds conclusion, g')))"

text \<open>
  The replies that make the Gemini adapter throw: the call throws, the text is empty,
  or the extracted text does not parse or parses to \<open>null\<close>.
\<close>

definition gemini_reply_fails :: "(string \<Rightarrow> json option) \<Rightarrow> llm_outcome \<Rightarrow> bool" where
  "gemini_reply_fails JSON_parse outcome =
     (case outcome of
        LlmThrows \<Rightarrow> True
      | LlmText text \<Rightarrow>
          text = [] \<or> JSON_parse (extract_json text) = None
          \<or> JSON_parse (extract_json text) = Some JNull)"

definition openai_reply_fails :: "(string \<Rightarrow> json option) \<Rightarrow> llm_outcome \<Rightarrow> bool" where
  "openai_reply_fails JSON_parse outcome =
     (case outcome of
        LlmThrows \<Rightarrow> True
      | LlmText text \<Rightarrow> text = [] \<or> JSON_parse (extract_json text) = None)"

section \<open>Trading cron\<close>

text \<open>
  \<open>startTradingCron\<close> registers, on the server side only, an interval timer whose
  callback requests one processing cycle and awaits its reply. The scheduler's state is
  whether the timer is registered and how many callbacks are still awaiting their
  reply. Two things can happen: the interval fires (\<open>Tick\<close>), which runs the callback
  up to its first \<open>await\<close>; or a pending request settles (\<open>Settle\<close>), by a reply or by
  a rejection that the callback catches, which ends that callback.
\<close>

record cron =
  timer_registered :: bool
  cycles_in_flight :: nat

datatype cron_event = Tick | Settle

definition startTradingCron :: "bool \<Rightarrow> cron" where
  "startTradingCron server_side =
     (if server_side then \<lparr> timer_registered = True, cycles_in_flight = 0 \<rparr>
      else \<lparr> timer_registered = False, cycles_in_flight = 0 \<rparr>)"

fun cron_step :: "cron \<Rightarrow> cron_event \<Rightarrow> cron" where
  "cron_step s Tick =
     (if timer_registered s then s\<lparr> cycles_in_flight := cycles_in_flight s + 1 \<rparr> else s)"
| "cron_step s Settle =
     (if cycles_in_flight s > 0 then s\<lparr> cycles_in_flight := cycles_in_flight s - 1 \<rparr> else s)"

definition cron_run :: "cron \<Rightarrow> cron_event list \<Rightarrow> cron" where
  "cron_run s evs = foldl cron_step s evs"

section \<open>Balance snapshots (POST /api/balance-snapshots)\<close>

record snapshot =
  snap_timestamp :: int
  snap_agentId :: string
  snap_agentName :: string
  snap_balance :: real
  snap_pnl :: real
  snap_pnlAbsolute :: real

text \<open>The storage as the route sees it: the agents and the stored snapshots.\<close>

record storage =
  stored_agents :: "agent list"
  stored_snapshots :: "snapshot list"

datatype post_response =
    NoAgentsFound
  | SnapshotsSaved nat int
  | SaveSnapshotsFailed

text \<open>The snapshot document created for one agent at the capture timestamp.\<close>

definition agent_snapshot :: "int \<Rightarrow> agent \<Rightarrow> snapshot" where
  "agent_snapshot ts a =
     \<lparr> snap_timestamp = ts, snap_agentId = agent_id a, snap_agentName = name a,
       snap_balance = js_or (balance a) 1000, snap_pnl = js_or (pnl a) 0,
       snap_pnlAbsolute = js_or (pnlAbsolute a) 0 \<rparr>"

text \<open>
  The loop that creates one snapshot per agent: each is written to the store and pushed
  on the list of created snapshots.
\<close>

fun create_snapshots :: "int \<Rightarrow> agent list \<Rightarrow> snapshot list \<times> snapshot list \<Rightarrow> snapshot list \<times> snapshot list" where
  "create_snapshots ts [] (store, snapshots) = (store, snapshots)"
| "create_snapshots ts (a # rest) (store, snapshots) =
     (let snapshot = agent_snapshot ts a
      in create_snapshots ts rest (store @ [snapshot], snapshots @ [snapshot]))"

text \<open>
  The \<open>POST\<close> handler. \<open>db_connected\<close> says whether \<open>connectDB\<close> succeeds; the storage
  operations after it are taken to succeed. The clock is read once.
\<close>

definition POST_balance_snapshots ::
  "bool \<Rightarrow> storage \<Rightarrow> clock \<Rightarrow> (post_response \<times> storage) \<times> clock" where
  "POST_balance_snapshots db_connected db clk =
     (if \<not> db_connected then ((SaveSnapshotsFailed, db), clk)
      else
        let agents = stored_agents db
        in if length agents = 0 then ((NoAgentsFound, db), clk)
           else
             let (timestamp, clk') = Date_now clk;
                 (store, snapshots) = create_snapshots timestamp agents (stored_snapshots db, []);
                 cutoffTime = timestamp - (24 * 60 * 60 * 1000);
                 store' = filter (\<lambda>s. \<not> snap_timestamp s < cutoffTime) store
             in ((SnapshotsSaved (length snapshots) timestamp,
                  db\<lparr> stored_snapshots := store' \<rparr>), clk'))"

section \<open>Example data\<close>

definition example_short :: position where
  "example_short =
     \<lparr> coin = ''BTC'', entry_price = 100, current_price = 100, profit_target = 97,
       stop_loss = 101, leverage = 5, size_usd = 500, signal = Short, opened_at = 0,
       expected_duration = ''2h_to_8h'' \<rparr>"

definition example_agent :: agent where
  "example_agent =
     \<lparr> agent_id = ''a1'', name = ''GEMINI'', strategy = ''Momentum'', balance = 1000,
       pnl = 0, pnlAbsolute = 0, winRate = 50, totalTrades = 0, activePositions = [] \<rparr>"

definition example_market :: market_data where
  "example_market =
     \<lparr> md_timestamp = 1700000000000, md_prices = [(''BTC'', 100)],
       md_volatility = Some [(''BTC'', 2)] \<rparr>"

definition example_long :: position where
  "example_long =
     \<lparr> coin = ''ETH'', entry_price = 2000, current_price = 2000, profit_target = 2030,
       stop_loss = 1990, leverage = 5, size_usd = 700, signal = Long, opened_at = 0,
       expected_duration = ''2h_to_8h'' \<rparr>"

text \<open>A generator whose every draw is 0.75 (3 * 2^51 of 2^53).\<close>

definition example_rng :: rng where
  "example_rng = sconst 6755399441055744"

definition stale_snapshot :: snapshot where
  "stale_snapshot =
     \<lparr> snap_timestamp = 1600000000000, snap_agentId = ''a1'', snap_agentName = ''GEMINI'',
       snap_balance = 1000, snap_pnl = 0, snap_pnlAbsolute = 0 \<rparr>"

definition fresh_snapshot :: snapshot where
  "fresh_snapshot =
     \<lparr> snap_timestamp = 1699999999000, snap_agentId = ''a1'', snap_agentName = ''GEMINI'',
       snap_balance = 1000, snap_pnl = 0, snap_pnlAbsolute = 0 \<rparr>"

text \<open>
  A stand-in for the \<open>ethers\<close> library that keeps its inputs readable: the encoding
  joins its four arguments with bars, the hash is the identity and the signature is the
  key followed by the hash. It is injective in the signed string.
\<close>

definition example_ethers :: ethers where
  "example_ethers =
     \<lparr> abi_encode = (\<lambda>j u s n. Some (j @ ''|'' @ u @ ''|'' @ s @ ''|'' @ show_int n)),
       keccak256 = (\<lambda>b. b),
       signMessage = (\<lambda>k h. Some (k @ ''|'' @ h)) \<rparr>"

definition example_wallet :: AgentWalletConfig where
  "example_wallet = \<lparr> user = ''0xA'', signer = ''0xB'', privateKey = ''0xK'' \<rparr>"

definition example_order :: js_object where
  "example_order =
     [(''symbol'', String ''BTCUSDT''), (''side'', String ''BUY''), (''type'', String ''MARKET''),
      (''quantity'', String ''0.01'')]"

text \<open>An exchange that accepts every request with an empty JSON object.\<close>

definition accepting_exchange :: "http_request \<Rightarrow> http_reply" where
  "accepting_exchange req = Response 200 ''OK'' (Some (JObj []))"

text \<open>An exchange that answers every request with status 500 and no JSON body.\<close>

definition failing_exchange :: "http_request \<Rightarrow> http_reply" where
  "failing_exchange req = Response 500 ''Internal Server Error'' None"

text \<open>
  A clock that reads 1700000000000 twice and 1700000000001 from then on: one
  millisecond passes between the signing and the building of the request.
\<close>

definition advancing_clock :: clock where
  "advancing_clock = 1700000000000 ## 1700000000000 ## sconst 1700000000001"

text \<open>A parser that knows two JSON texts and rejects every other text.\<close>

definition example_parse :: "string \<Rightarrow> json option" where
  "example_parse s =
     (if s = ''{}'' then Some (JObj [])
      else if s = ''{\"action\":\"banana\"}'' then Some (JObj [(''action'', JStr ''banana'')])
      else None)"

section \<open>Properties of the paper PnL and balance\<close>

lemma js_or_zero: "js_or x 0 = x"
  by (simp add: js_or_def)

lemma foldl_realized_sum:
  "foldl (\<lambda>sum t. sum + js_or (trade_pnlAbsolute t) 0) acc ts
     = acc + sum_list (map trade_pnlAbsolute ts)"
  by (induction ts arbitrary: acc) (simp_all add: js_or_zero)

lemma short_percent_flip:
  "- (((x - e) / e) * 100) = ((e - x) / e) * (100::real)"
proof -
  have "e - x = - (x - e)" by simp
  then show ?thesis by (simp only: minus_divide_left mult_minus_left)
qed

lemma oriented_percent:
  "(if sd = Long then ((x - e) / e) * 100 else - (((x - e) / e) * 100)) = spec_pnl_percent sd e x"
  by (cases sd)
    (simp_all only: spec_pnl_percent_def side.simps if_True if_False short_percent_flip simp_thms)

lemma calculateUnrealizedPnL_loop_sum:
  "calculateUnrealizedPnL_loop ps acc xs
     = acc + sum_list (map (\<lambda>p. spec_unrealizedPnL p (quoted_price ps (coin p))) xs)"
proof (induction xs arbitrary: acc)
  case Nil
  show ?case by simp
next
  case (Cons p xs)
  show ?case
  proof (cases "quoted_price ps (coin p)")
    case None
    then show ?thesis
      using Cons.IH
      by (auto simp: quoted_price_def spec_unrealizedPnL_def split: option.splits if_splits)
  next
    case (Some x)
    then have look: "map_of ps (coin p) = Some x" and nz: "x \<noteq> 0"
      by (auto simp: quoted_price_def split: option.splits if_splits)
    show ?thesis
      using Cons.IH look nz Some
      by (simp only: calculateUnrealizedPnL_loop.simps option.case if_False Let_def
            oriented_percent spec_unrealizedPnL_def list.map sum_list.Cons add.assoc)
  qed
qed

lemma updateAgentBalance_frame:
  "agent_id (updateAgentBalance trades a ps) = agent_id a"
  "activePositions (updateAgentBalance trades a ps) = activePositions a"
  by (simp_all add: updateAgentBalance_def Let_def)

text \<open>
  Claim C6. For an entry price that is not zero (in particular for every positive one),
  closing a position yields the percentage (exit - entry) / entry * 100 for a long and
  (entry - exit) / entry * 100 for a short, and the absolute PnL is that percentage / 100
  times the notional; \<open>calculatePnL\<close> computes the same percentage, and the agents
  route's unrealized PnL of a single priced position is the same absolute amount. A long
  from 100 to 110 yields +10, a short from 100 to 110 yields -10.
\<close>

theorem realized_pnl_formula:
  assumes "entry_price p \<noteq> 0"
  shows "closed_pnl (closePaperPosition a p x)
           = (case signal p of Long \<Rightarrow> (x - entry_price p) / entry_price p * 100
              | Short \<Rightarrow> (entry_price p - x) / entry_price p * 100)
       \<and> closed_pnlAbsolute (closePaperPosition a p x)
           = closed_pnl (closePaperPosition a p x) / 100 * size_usd p
       \<and> calculatePnL (signal p) (entry_price p) x = closed_pnl (closePaperPosition a p x)
       \<and> (x \<noteq> 0 \<longrightarrow> route_calculateUnrealizedPnL [p] [(coin p, x)]
                      = closed_pnlAbsolute (closePaperPosition a p x))
       \<and> calculatePnL Long 100 110 = 10
       \<and> calculatePnL Short 100 110 = - 10"
proof -
  have pct: "closed_pnl (closePaperPosition a p x) = spec_pnl_percent (signal p) (entry_price p) x"
    by (simp only: closePaperPosition_def Let_def oriented_percent close_result.simps)
  have ab: "closed_pnlAbsolute (closePaperPosition a p x)
           = closed_pnl (closePaperPosition a p x) / 100 * size_usd p"
    by (simp add: closePaperPosition_def Let_def)
  have cp: "calculatePnL (signal p) (entry_price p) x = spec_pnl_percent (signal p) (entry_price p) x"
    by (cases "signal p") (simp_all add: calculatePnL_def spec_pnl_percent_def)
  have un: "route_calculateUnrealizedPnL [p] [(coin p, x)]
              = closed_pnlAbsolute (closePaperPosition a p x)" if "x \<noteq> 0"
    using that
    by (simp add: route_calculateUnrealizedPnL_def closePaperPosition_def Let_def js_or_zero)
  have ex: "calculatePnL Long 100 110 = 10" "calculatePnL Short 100 110 = - 10"
    by (simp_all add: calculatePnL_def)
  from pct ab cp un ex show ?thesis by (simp add: spec_pnl_percent_def)
qed

theorem realized_pnl_formula_witness:
  "entry_price example_short \<noteq> 0 \<and> (110::real) \<noteq> 0
   \<and> closed_pnl (closePaperPosition example_agent example_short 110) = - 10
   \<and> closed_pnlAbsolute (closePaperPosition example_agent example_short 110) = - 50
   \<and> calculatePnL Short 100 110 = - 10
   \<and> route_calculateUnrealizedPnL [example_short] [(''BTC'', 110)] = - 50"
  using realized_pnl_formula [of example_short example_agent 110]
  by (simp add: example_short_def)

text \<open>
  Claim C2. The paper balance computed by \<open>calculateAgentBalance\<close> is the initial
  balance 1000 plus the sum of \<open>pnlAbsolute\<close> over the agent's exit trades plus the sum
  of the unrealized PnL over its open positions; and the computation is idempotent:
  recomputing on the agent that \<open>updateAgentBalance\<close> has just saved, with the same
  trades and prices, yields the same balance and the same agent.
\<close>

theorem paper_balance_formula:
  "calculateAgentBalance trades a ps
     = spec_paper_balance (Trade_find trades (agent_id a) Exit)
         (activePositions a) ps
   \<and> calculateAgentBalance trades (updateAgentBalance trades a ps) ps
     = calculateAgentBalance trades a ps
   \<and> updateAgentBalance trades (updateAgentBalance trades a ps) ps
     = updateAgentBalance trades a ps"
proof -
  have formula: "calculateAgentBalance trades a ps
     = spec_paper_balance (Trade_find trades (agent_id a) Exit)
         (activePositions a) ps"
    by (simp add: calculateAgentBalance_def getRealizedPnL_def calculateUnrealizedPnL_def
        spec_paper_balance_def INITIAL_BALANCE_def foldl_realized_sum
        calculateUnrealizedPnL_loop_sum)
  have again: "calculateAgentBalance trades (updateAgentBalance trades a ps) ps
     = calculateAgentBalance trades a ps"
    by (simp add: calculateAgentBalance_def updateAgentBalance_frame)
  have "updateAgentBalance trades (updateAgentBalance trades a ps) ps
     = updateAgentBalance trades a ps"
    unfolding updateAgentBalance_def [of trades "updateAgentBalance trades a ps"]
      again updateAgentBalance_frame
    by (simp add: updateAgentBalance_def Let_def)
  with formula again show ?thesis by simp
qed

section \<open>Properties of the simulated decisions\<close>

lemma obj_set_subset: "set (obj_set ds k v) \<subseteq> insert (k, v) (set ds)"
  by (induction ds) (auto split: if_splits)

lemma exit_check_signal:
  "tsa_signal (exit_check p x) = Close \<or> tsa_signal (exit_check p x) = Hold"
  by (simp add: exit_check_def signal_args_def)

lemma exit_only_obj_set:
  "exit_only ds \<Longrightarrow> tsa_signal d = Close \<or> tsa_signal d = Hold \<Longrightarrow> exit_only (obj_set ds k d)"
  using obj_set_subset [of ds k d] by (auto simp: exit_only_def list_all_iff)

lemma exit_loop_exit_only:
  "exit_only (fst st) \<Longrightarrow> exit_only (fst (exit_loop ps st xs))"
proof (induction ps st xs rule: exit_loop.induct)
  case (1 ps ds conclusion)
  then show ?case by simp
next
  case (2 ps ds conclusion p rest)
  then show ?case
    by (auto simp: exit_only_obj_set exit_check_signal split: option.splits)
qed

text \<open>
  A draw lies in [0, 1), so the index into \<open>LEVERAGE_OPTIONS\<close> is always in range.
\<close>

lemma Math_random_range:
  "0 \<le> fst (Math_random g)" "fst (Math_random g) < 1"
proof -
  have "shd g mod 2 ^ 53 < (2 ^ 53 :: nat)" by simp
  then have "real (shd g mod 2 ^ 53) < 2 ^ 53"
    by (metis of_nat_less_iff of_nat_numeral of_nat_power)
  then show "fst (Math_random g) < 1" by (simp add: Math_random_def)
  show "0 \<le> fst (Math_random g)" by (simp add: Math_random_def)
qed

lemma leverage_index_in_range:
  "nat \<lfloor>fst (Math_random g) * real (length LEVERAGE_OPTIONS)\<rfloor> < length LEVERAGE_OPTIONS"
proof -
  have len: "length LEVERAGE_OPTIONS = 6" by (simp add: LEVERAGE_OPTIONS_def)
  have "fst (Math_random g) * 6 < 6" using Math_random_range(2) [of g] by simp
  then have "\<lfloor>fst (Math_random g) * 6\<rfloor> < 6" by (simp add: floor_less_iff)
  then have "nat \<lfloor>fst (Math_random g) * 6\<rfloor> < 6" by linarith
  then show ?thesis unfolding len by simp
qed

lemma example_draw: "Math_random example_rng = (3 / 4, example_rng)"
  by (simp add: Math_random_def example_rng_def)

text \<open>
  For a position whose stop lies below its target, as for a long, the exit check closes
  at or below the stop and at or above the target and holds in between. For a position
  whose target does not lie above its stop, as for a short, the two comparisons cover
  every price: such a position is closed whatever the price is.
\<close>

lemma long_exit_check:
  assumes "stop_loss p < profit_target p"
  shows "tsa_signal (exit_check p x)
           = (if x \<le> stop_loss p \<or> profit_target p \<le> x then Close else Hold)"
    and "x \<le> stop_loss p \<Longrightarrow>
           tsa_justification (exit_check p x)
             = [Lit ''Hit '', Lit ''stop loss'', Lit '' at '', Num x]"
    and "profit_target p \<le> x \<Longrightarrow>
           tsa_justification (exit_check p x)
             = [Lit ''Hit '', Lit ''take profit'', Lit '' at '', Num x]"
  using assms by (auto simp: exit_check_def signal_args_def)

lemma short_always_closed:
  assumes "profit_target p \<le> stop_loss p"
  shows "tsa_signal (exit_check p x) = Close"
  using assms by (auto simp: exit_check_def signal_args_def)

text \<open>
  Claim C3, at a short position. The exit check compares the price with the stop and
  the target in the same way for both directions. The short position entered at 100
  with its stop above (101) and its target below (97) is closed at the unchanged price
  100, as a hit of the stop loss, where an exit check oriented by direction would
  signal no exit.
\<close>

theorem short_closed_at_entry_price:
  "signal example_short = Short
   \<and> profit_target example_short < 100 \<and> 100 < stop_loss example_short
   \<and> exit_check example_short 100
       = (signal_args ''BTC'' Close [Lit ''Hit '', Lit ''stop loss'', Lit '' at '', Num 100])
           \<lparr> tsa_entry_price := Some 100 \<rparr>
   \<and> fst (simulated_decision (example_agent\<lparr> activePositions := [example_short] \<rparr>)
            example_market example_rng)
       = ([(''BTC'', exit_check example_short 100)],
          [Lit ''Closing '', Lit ''BTC'', Lit '' '', Lit ''short'', Lit '' at '', Fixed 2 100,
           Lit ''. ''])"
  by (simp add: exit_check_def example_short_def signal_args_def simulated_decision_def
      example_agent_def example_market_def exposurePercent_def
      js_or_def side_name_def)

text \<open>
  Claim C4, as stated, fails: with no open position and a balance of 1000 the
  simulated decision proposes a long of notional 2100 on BTC, 210 percent of the
  balance, and nothing rejects it.
\<close>

theorem open_beyond_ceiling:
  "activePositions example_agent = []
   \<and> balance example_agent = 1000
   \<and> map_option (\<lambda>d. (tsa_signal d, tsa_size_usd d, tsa_leverage d))
        (map_of (fst (fst (simulated_decision example_agent example_market example_rng))) ''BTC'')
      = Some (Open Long, Some 2100, Some 15)
   \<and> (0 + 2100) / balance example_agent * 100 > 70"
  by (simp add: simulated_decision_def example_agent_def example_market_def
      exposurePercent_def example_draw generate_trade_def Let_def
      LEVERAGE_OPTIONS_def volatility_of_def js_or_def expected_duration_of_def side_upper_def)

text \<open>
  Claim C4, amended. When the exposure of the positions already open is at least 70
  percent of the balance, the simulated decision opens nothing: it draws no random
  number and every decision it returns is a close or a hold. The gate is on the current
  exposure, not on the exposure a proposed open would produce.
\<close>

theorem exposure_gate:
  assumes "exposurePercent a \<ge> 70"
  shows "snd (simulated_decision a md g) = g
       \<and> exit_only (fst (fst (simulated_decision a md g)))"
proof -
  have "exit_only (fst (exit_loop (md_prices md) ([], []) (activePositions a)))"
    by (rule exit_loop_exit_only) (simp add: exit_only_def)
  with assms show ?thesis
    by (cases "exit_loop (md_prices md) ([], []) (activePositions a)")
       (simp add: simulated_decision_def Let_def)
qed

theorem exposure_gate_witness:
  "exposurePercent (example_agent\<lparr> activePositions := [example_long] \<rparr>) \<ge> 70
   \<and> snd (simulated_decision (example_agent\<lparr> activePositions := [example_long] \<rparr>)
         example_market example_rng) = example_rng
   \<and> exit_only (fst (fst (simulated_decision
         (example_agent\<lparr> activePositions := [example_long] \<rparr>) example_market example_rng)))"
proof -
  have h: "exposurePercent (example_agent\<lparr> activePositions := [example_long] \<rparr>) \<ge> 70"
    by (simp add: exposurePercent_def example_agent_def example_long_def
        js_or_def)
  show ?thesis using h exposure_gate [OF h, of example_market example_rng] by simp
qed

section \<open>Properties of the trading cron\<close>

lemma cron_step_timer: "timer_registered (cron_step s ev) = timer_registered s"
  by (cases ev) simp_all

lemma cron_run_timer: "timer_registered (cron_run s evs) = timer_registered s"
  unfolding cron_run_def by (induction evs arbitrary: s) (simp_all add: cron_step_timer)

lemma cron_run_snoc: "cron_run s (evs @ [ev]) = cron_step (cron_run s evs) ev"
  by (simp add: cron_run_def)

text \<open>
  Claim C7, as stated, fails: when the interval fires a second time before the first
  cycle has settled, the second cycle is started as well and two cycles are running.
\<close>

theorem overlapping_cycles:
  "cycles_in_flight (cron_run (startTradingCron True) [Tick]) = 1
   \<and> cycles_in_flight (cron_run (startTradingCron True) [Tick, Tick]) = 2"
  by (simp add: cron_run_def startTradingCron_def)

text \<open>
  Claim C7, amended. The scheduler does not limit the number of running cycles: after
  any history of ticks and settled requests, the next tick of the interval starts one
  more cycle, whether or not earlier cycles have finished; no tick is skipped or queued.
\<close>

theorem every_tick_starts_a_cycle:
  "cycles_in_flight (cron_run (startTradingCron True) (evs @ [Tick]))
     = cycles_in_flight (cron_run (startTradingCron True) evs) + 1"
proof -
  have "timer_registered (cron_run (startTradingCron True) evs)"
    by (simp add: cron_run_timer startTradingCron_def)
  then show ?thesis by (simp add: cron_run_snoc)
qed

section \<open>Properties of the snapshot route\<close>

lemma create_snapshots_map:
  "create_snapshots ts as (store, acc)
     = (store @ map (agent_snapshot ts) as, acc @ map (agent_snapshot ts) as)"
  by (induction as arbitrary: store acc) (simp_all add: Let_def)

text \<open>
  Claim C10, as stated, fails when there is no agent: the handler returns before the
  clean-up, and a stored snapshot older than 24 hours stays in the store.
\<close>

theorem no_agents_no_pruning:
  "POST_balance_snapshots True \<lparr> stored_agents = [], stored_snapshots = [stale_snapshot] \<rparr>
       (sconst 1700000000000)
     = ((NoAgentsFound, \<lparr> stored_agents = [], stored_snapshots = [stale_snapshot] \<rparr>),
        sconst 1700000000000)
   \<and> snap_timestamp stale_snapshot < 1700000000000 - 24 * 60 * 60 * 1000"
  by (simp add: POST_balance_snapshots_def stale_snapshot_def)

text \<open>
  Claim C10, amended. Every invocation of the save operation that finds at least one
  agent reads the clock once, creates one snapshot per agent, all with that capture
  timestamp, and deletes every stored snapshot whose timestamp is more than 24 hours
  before it: the store afterwards is the old snapshots that are not older than 24
  hours, followed by the new ones. So a save is not a pure append.
\<close>

theorem snapshots_saved_and_pruned:
  assumes "stored_agents db \<noteq> []"
  shows "POST_balance_snapshots True db clk
     = ((SnapshotsSaved (length (stored_agents db)) (shd clk),
         db\<lparr> stored_snapshots :=
               filter (\<lambda>s. shd clk - 86400000 \<le> snap_timestamp s) (stored_snapshots db)
               @ map (agent_snapshot (shd clk)) (stored_agents db) \<rparr>),
        stl clk)"
proof -
  have keep: "filter (\<lambda>s. \<not> snap_timestamp s < shd clk - 86400000)
                 (map (agent_snapshot (shd clk)) (stored_agents db))
              = map (agent_snapshot (shd clk)) (stored_agents db)"
    by (induction "stored_agents db") (auto simp: agent_snapshot_def filter_id_conv)
  have same: "(\<lambda>s. \<not> snap_timestamp s < shd clk - 86400000)
               = (\<lambda>s. shd clk - 86400000 \<le> snap_timestamp s)"
    by (auto simp: fun_eq_iff)
  show ?thesis
    using assms keep
    by (simp add: POST_balance_snapshots_def Date_now_def create_snapshots_map Let_def same)
qed

theorem snapshots_saved_and_pruned_witness:
  "stored_agents \<lparr> stored_agents = [example_agent],
                    stored_snapshots = [stale_snapshot, fresh_snapshot] \<rparr> \<noteq> []
   \<and> POST_balance_snapshots True
        \<lparr> stored_agents = [example_agent], stored_snapshots = [stale_snapshot, fresh_snapshot] \<rparr>
        (sconst 1700000000000)
     = ((SnapshotsSaved 1 1700000000000,
         \<lparr> stored_agents = [example_agent],
           stored_snapshots = [fresh_snapshot, agent_snapshot 1700000000000 example_agent] \<rparr>),
        sconst 1700000000000)"
  using snapshots_saved_and_pruned
    [of "\<lparr> stored_agents = [example_agent], stored_snapshots = [stale_snapshot, fresh_snapshot] \<rparr>"
        "sconst 1700000000000"]
  by (simp add: stale_snapshot_def fresh_snapshot_def)

section \<open>Properties of the balance reconciliation\<close>

lemma failing_query:
  "fst (getAsterAccountBalance example_ethers failing_exchange pf example_wallet advancing_clock)
     = Inl (BalanceFetchFailed 500 (JStr ''Internal Server Error''))"
  by (simp add: getAsterAccountBalance_def generateNonce_def Date_now_def advancing_clock_def
      generateAsterSignature_def example_ethers_def failing_exchange_def response_ok_def
      error_message_def Let_def)

text \<open>
  Claim C9. Whenever the balance query fails (it rejects with an error \<open>e\<close>),
  \<open>syncBalanceFromAster\<close> returns normally with the agent as it was, so balance, pnl
  and pnlAbsolute keep their last values; nothing is saved and the failure is only
  logged.
\<close>

theorem sync_keeps_last_balance:
  assumes "fst (getAsterAccountBalance eth fetch pf w clk) = Inl e"
  shows "agent_after (fst (syncBalanceFromAster eth fetch pf save_ok a w ib clk)) = a
       \<and> balance (agent_after (fst (syncBalanceFromAster eth fetch pf save_ok a w ib clk)))
           = balance a
       \<and> pnl (agent_after (fst (syncBalanceFromAster eth fetch pf save_ok a w ib clk))) = pnl a
       \<and> pnlAbsolute (agent_after (fst (syncBalanceFromAster eth fetch pf save_ok a w ib clk)))
           = pnlAbsolute a
       \<and> saved (fst (syncBalanceFromAster eth fetch pf save_ok a w ib clk)) = None
       \<and> logged_failure (fst (syncBalanceFromAster eth fetch pf save_ok a w ib clk)) = Some e"
  using assms
  by (cases "getAsterAccountBalance eth fetch pf w clk")
     (simp add: syncBalanceFromAster_def Let_def)

theorem sync_keeps_last_balance_witness:
  "fst (getAsterAccountBalance example_ethers failing_exchange (\<lambda>v. 0) example_wallet advancing_clock)
     = Inl (BalanceFetchFailed 500 (JStr ''Internal Server Error''))
   \<and> agent_after (fst (syncBalanceFromAster example_ethers failing_exchange (\<lambda>v. 0) True
        example_agent example_wallet None advancing_clock)) = example_agent
   \<and> balance (agent_after (fst (syncBalanceFromAster example_ethers failing_exchange (\<lambda>v. 0) True
        example_agent example_wallet None advancing_clock))) = 1000"
  using sync_keeps_last_balance [OF failing_query [of "\<lambda>v. 0"], of True example_agent None]
    failing_query [of "\<lambda>v. 0"]
  by (simp add: example_agent_def)

section \<open>Properties of the decision adapters\<close>

text \<open>
  Claim C8, as stated, fails. A reply that parses but does not follow the schema is not
  turned into the safe default: the empty object comes back with confidence 0.5, and an
  action outside the schema is passed on. The OpenAI adapter's fallback is an empty map
  of decisions, not an object with action and confidence.
\<close>

theorem unvalidated_reply_passes:
  "confidence (generateGeminiTradingDecision example_parse (LlmText ''{}'') ''2025-10-27T01:23:45Z'')
     = JNum 0.5
   \<and> action (generateGeminiTradingDecision example_parse
        (LlmText ''Here you go: {\"action\":\"banana\"} bye'') ''2025-10-27T01:23:45Z'')
     = JStr ''banana''
   \<and> generateAITradingDecision example_parse LlmThrows
     = JObj [(''decisions'', JObj []), (''conclusion'', JStr ''AI decision generation failed'')]"
  by (simp add: generateGeminiTradingDecision_def generateAITradingDecision_def example_parse_def
      extract_json_def or_default_def get_prop_def openai_fallback_def)

text \<open>
  Claim C8, amended. When the collaborator's call throws, returns no text, or returns a
  text that does not parse as JSON (for Gemini also one that parses to \<open>null\<close>), the
  adapter returns its fallback and does not throw: the Gemini adapter the decision with
  action \<open>none\<close> and confidence 0, the OpenAI adapter the empty map of decisions.
\<close>

theorem failed_reply_gives_fallback:
  "(gemini_reply_fails JSON_parse outcome \<longrightarrow>
      generateGeminiTradingDecision JSON_parse outcome now_iso = gemini_fallback now_iso
      \<and> action (generateGeminiTradingDecision JSON_parse outcome now_iso) = JStr ''none''
      \<and> confidence (generateGeminiTradingDecision JSON_parse outcome now_iso) = JNum 0)
   \<and> (openai_reply_fails JSON_parse outcome \<longrightarrow>
      generateAITradingDecision JSON_parse outcome = openai_fallback)"
  by (cases outcome)
     (auto simp: gemini_reply_fails_def openai_reply_fails_def generateGeminiTradingDecision_def
        generateAITradingDecision_def gemini_fallback_def)

theorem failed_reply_gives_fallback_witness:
  "gemini_reply_fails example_parse (LlmText ''not json'')
   \<and> openai_reply_fails example_parse (LlmText ''not json'')
   \<and> generateGeminiTradingDecision example_parse (LlmText ''not json'') ''2025-10-27T01:23:45Z''
       = gemini_fallback ''2025-10-27T01:23:45Z''
   \<and> generateAITradingDecision example_parse (LlmText ''not json'') = openai_fallback"
proof -
  have g: "gemini_reply_fails example_parse (LlmText ''not json'')"
    by (simp add: gemini_reply_fails_def example_parse_def extract_json_def)
  have o: "openai_reply_fails example_parse (LlmText ''not json'')"
    by (simp add: openai_reply_fails_def example_parse_def extract_json_def)
  show ?thesis
    using g o failed_reply_gives_fallback
      [of example_parse "LlmText ''not json''" "''2025-10-27T01:23:45Z''"]
    by simp
qed

section \<open>Properties of the signing routine\<close>

lemmas js_eval =
  signed_json_def trimAndSortParams_def trim_value_def JSON_stringify_keys_def json_quote_def
  json_escape_def is_space_def Let_def show_int_def show_nat.simps digit_char_def hex_char_def




lemma signed_json_order:
  "signed_json (obj_set example_order ''leverage'' Undefined) 1700000000000
     = ''{\"quantity\":\"0.01\",\"recvWindow\":\"50000\",\"side\":\"BUY\",\"symbol\":\"BTCUSDT\",\"timestamp\":\"1700000000000\",\"type\":\"MARKET\"}''"
  by (simp add: js_eval example_order_def)



lemma map_of_obj_set: "map_of (obj_set kvs k v) = (map_of kvs)(k \<mapsto> v)"
  by (induction kvs) (auto simp: fun_eq_iff)












subsection \<open>Decimal numerals are injective\<close>
























text \<open>
  In every order the signature is computed at the second reading of the clock, and the
  \<open>timestamp\<close> of the request is the third reading.
\<close>

lemma generateAsterSignature_clock:
  "snd (generateAsterSignature eth ps w n clk) = stl clk"
  by (simp add: generateAsterSignature_def Date_now_def Let_def split: option.splits)

lemma placeAsterOrder_timestamp:
  assumes "fst (generateAsterSignature eth
             (obj_set orderParams ''leverage''
                (if truthy (obj_get orderParams ''leverage'')
                 then String (js_String (obj_get orderParams ''leverage'')) else Undefined))
             w (shd clk * 1000) (stl clk)) = Inr sg"
  shows "\<exists>req. snd (fst (placeAsterOrder eth fetch orderParams w clk)) = [req]
           \<and> map_of (req_params req) ''timestamp'' = Some (show_int (shd (stl (stl clk))))
           \<and> map_of (req_params req) ''signature'' = Some sg"
proof -
  let ?ps = "obj_set orderParams ''leverage''
                (if truthy (obj_get orderParams ''leverage'')
                 then String (js_String (obj_get orderParams ''leverage'')) else Undefined)"
  have sig: "generateAsterSignature eth ?ps w (shd clk * 1000) (stl clk) = (Inr sg, stl (stl clk))"
    using assms generateAsterSignature_clock [of eth ?ps w "shd clk * 1000" "stl clk"]
    by (cases "generateAsterSignature eth ?ps w (shd clk * 1000) (stl clk)") simp
  let ?now = "shd (stl (stl clk))"
  let ?body = "obj_set (obj_set (obj_set (obj_set (obj_set (obj_set ?ps
       ''nonce'' (String (js_String (Number (shd clk * 1000)))))
       ''user'' (String (user w))) ''signer'' (String (signer w)))
       ''signature'' (String sg)) ''recvWindow'' (Number 50000)) ''timestamp'' (Number ?now)"
  let ?req = "\<lparr> req_method = ''POST'', req_url = ASTER_FUTURES_API @ ''/fapi/v3/order'',
       req_params = map (\<lambda>(k, v). (k, js_String v)) (filter (\<lambda>(k, v). v \<noteq> Undefined) ?body) \<rparr>"
  have sent: "snd (fst (placeAsterOrder eth fetch orderParams w clk)) = [?req]"
    by (simp add: placeAsterOrder_def generateNonce_def Date_now_def sig Let_def
          split: http_reply.splits sum.splits option.splits)
  have ts: "map_of ?body ''timestamp'' = Some (Number ?now)"
    by (simp add: map_of_obj_set)
  have sgn: "map_of ?body ''signature'' = Some (String sg)"
    by (simp add: map_of_obj_set)
  have "map_of (filter (\<lambda>(k, v). v \<noteq> Undefined) ?body) ''timestamp'' = Some (Number ?now)"
    by (rule map_of_filter_in [OF ts]) simp
  then have a: "map_of (req_params ?req) ''timestamp'' = Some (show_int ?now)"
    by (simp add: map_of_map)
  have "map_of (filter (\<lambda>(k, v). v \<noteq> Undefined) ?body) ''signature'' = Some (String sg)"
    by (rule map_of_filter_in [OF sgn]) simp
  then have b: "map_of (req_params ?req) ''signature'' = Some sg"
    by (simp add: map_of_map)
  from sent a b show ?thesis by blast
qed

text \<open>
  Claim C5, at a clock that advances by one millisecond between the signing and the
  building of the request. The signature covers the timestamp 1700000000000, read inside
  \<open>generateAsterSignature\<close>; the request body carries the timestamp 1700000000001, read
  again by \<open>placeAsterOrder\<close>. The request does not consist of the parameter set that
  was signed.
\<close>

theorem request_timestamp_differs:
  "snd (fst (placeAsterOrder example_ethers accepting_exchange example_order example_wallet
          advancing_clock))
   = [\<lparr> req_method = ''POST'', req_url = ''https://fapi.asterdex.com/fapi/v3/order'',
        req_params =
          [(''symbol'', ''BTCUSDT''), (''side'', ''BUY''), (''type'', ''MARKET''),
           (''quantity'', ''0.01''), (''nonce'', ''1700000000000000''), (''user'', ''0xA''),
           (''signer'', ''0xB''),
           (''signature'', ''0xK|{\"quantity\":\"0.01\",\"recvWindow\":\"50000\",\"side\":\"BUY\",\"symbol\":\"BTCUSDT\",\"timestamp\":\"1700000000000\",\"type\":\"MARKET\"}|0xA|0xB|1700000000000000''),
           (''recvWindow'', ''50000''), (''timestamp'', ''1700000000001'')] \<rparr>]"
proof -
  have lev: "obj_get example_order ''leverage'' = Undefined"
    by (simp add: obj_get_def example_order_def)
  have sig: "generateAsterSignature example_ethers (obj_set example_order ''leverage'' Undefined)
               example_wallet 1700000000000000 (1700000000000 ## sconst 1700000000001)
             = (Inr ''0xK|{\"quantity\":\"0.01\",\"recvWindow\":\"50000\",\"side\":\"BUY\",\"symbol\":\"BTCUSDT\",\"timestamp\":\"1700000000000\",\"type\":\"MARKET\"}|0xA|0xB|1700000000000000'',
                sconst 1700000000001)"
    by (simp add: generateAsterSignature_def Date_now_def signed_json_order example_ethers_def
        example_wallet_def show_int_def show_nat.simps digit_char_def)
  show ?thesis
    by (simp add: placeAsterOrder_def generateNonce_def Date_now_def advancing_clock_def lev sig
        accepting_exchange_def response_ok_def ASTER_FUTURES_API_def)
       (simp add: example_order_def example_wallet_def show_int_def show_nat.simps digit_char_def)
qed

end
